theory Spec2Isabelle
  imports Complex_Main "HOL-Library.Word"
begin

unbundle bit_operations_syntax

section \<open>The board, as python-chess exposes it to the encoder\<close>

text \<open>
  \<^verbatim>\<open>nnue_trainer.py\<close> reads a position through four operations of python-chess:
  \<^verbatim>\<open>board.king(color)\<close>, \<^verbatim>\<open>board.piece_map()\<close>, \<^verbatim>\<open>board.turn\<close> and
  \<^verbatim>\<open>chess.square_mirror\<close>. Squares are the integers 0..63 (a1 = 0, h8 = 63).
  \<^verbatim>\<open>chess.WHITE\<close> is \<^verbatim>\<open>True\<close>, \<^verbatim>\<open>chess.BLACK\<close> is \<^verbatim>\<open>False\<close>.
\<close>

datatype color = BLACK | WHITE

datatype piece_type = PAWN | KNIGHT | BISHOP | ROOK | QUEEN | KING

record piece =
  piece_type :: piece_type
  color :: color

type_synonym square = nat

record board =
  piece_at :: "square \<Rightarrow> piece option"
  promoted :: "square \<Rightarrow> bool"
  turn :: color

definition SQUARES :: "square list" where
  "SQUARES = [0..<64]"

text \<open>
  \<^verbatim>\<open>piece_map()\<close> walks the occupied squares from the highest to the lowest
  (\<^verbatim>\<open>scan_reversed\<close>) and builds a dict from square to piece.
\<close>

definition piece_map :: "board \<Rightarrow> (square \<times> piece) list" where
  "piece_map b =
     List.map_filter (\<lambda>sq. case piece_at b sq of None \<Rightarrow> None | Some p \<Rightarrow> Some (sq, p))
       (rev SQUARES)"

text \<open>
  \<^verbatim>\<open>king(color)\<close> masks the kings of that colour that are not marked promoted and
  returns the most significant square of the mask, or \<^verbatim>\<open>None\<close> when the mask is empty.
\<close>

definition king :: "board \<Rightarrow> color \<Rightarrow> square option" where
  "king b c =
     find (\<lambda>sq. piece_at b sq = Some \<lparr>piece_type = KING, color = c\<rparr> \<and> \<not> promoted b sq)
       (rev SQUARES)"

text \<open>\<^verbatim>\<open>square_mirror(square) = square ^ 0x38\<close>: the rank is flipped, the file kept.\<close>

definition square_mirror :: "square \<Rightarrow> square" where
  "square_mirror sq = sq XOR 56"

section \<open>HalfKPFeatures\<close>

text \<open>The dict \<^verbatim>\<open>self.piece_to_index\<close> of \<^verbatim>\<open>HalfKPFeatures.__init__\<close>.\<close>

fun piece_to_index :: "piece_type \<Rightarrow> int" where
  "piece_to_index PAWN = 0"
| "piece_to_index KNIGHT = 1"
| "piece_to_index BISHOP = 2"
| "piece_to_index ROOK = 3"
| "piece_to_index QUEEN = 4"
| "piece_to_index KING = 5"

text \<open>
  The feature vector is a float32 array of length 768 that only ever holds 0.0 and 1.0;
  both are exact, so the entries are modelled as reals.
\<close>

type_synonym features = "real list"

text \<open>
  One round of the loop \<^verbatim>\<open>for square, piece in board.piece_map().items()\<close> of
  \<^verbatim>\<open>_get_halfkp_features\<close>; \<open>king_square\<close> is the king square after the mirroring
  of line 101.
\<close>

definition halfkp_step :: "color \<Rightarrow> square \<Rightarrow> features \<Rightarrow> square \<times> piece \<Rightarrow> features" where
  "halfkp_step c king_square feats sp =
     (case sp of (square, pc) \<Rightarrow>
        if piece_type pc = KING then feats
        else
          let square = (if c = BLACK then square_mirror square else square);
              piece_color = (if color pc = c then 0 else 1 :: int);
              piece_type_idx = piece_to_index (piece_type pc);
              feature_idx = int king_square * 10 * 64 + piece_color * 6 * 64
                            + piece_type_idx * 64 + int square
          in if 0 \<le> feature_idx \<and> feature_idx < 768
             then feats[nat feature_idx := 1]
             else feats)"

definition get_halfkp_features :: "board \<Rightarrow> color \<Rightarrow> features" where
  "get_halfkp_features b c =
     (let feats = replicate 768 0 in
      case king b c of
        None \<Rightarrow> feats
      | Some king_square \<Rightarrow>
          let king_square = (if c = BLACK then square_mirror king_square else king_square)
          in foldl (halfkp_step c king_square) feats (piece_map b))"

definition position_to_features :: "board \<Rightarrow> features \<times> features" where
  "position_to_features b = (get_halfkp_features b WHITE, get_halfkp_features b BLACK)"

text \<open>The number of set bits of a feature vector.\<close>

definition set_bits :: "features \<Rightarrow> nat" where
  "set_bits feats = length (filter (\<lambda>v. v = 1) feats)"

text \<open>
  The board of \<^verbatim>\<open>rnbqkbnr/pppppppp/8/8/8/8/PPPPPPPP/RNBQKBNR w KQkq - 0 1\<close>, the FEN
  that \<^verbatim>\<open>test_imports.py\<close> and \<^verbatim>\<open>nnue_validation.py\<close> encode.
\<close>

definition back_rank :: "piece_type list" where
  "back_rank = [ROOK, KNIGHT, BISHOP, QUEEN, KING, BISHOP, KNIGHT, ROOK]"

definition starting_piece_at :: "square \<Rightarrow> piece option" where
  "starting_piece_at sq =
     (if sq < 8 then Some \<lparr>piece_type = back_rank ! sq, color = WHITE\<rparr>
      else if sq < 16 then Some \<lparr>piece_type = PAWN, color = WHITE\<rparr>
      else if sq < 48 then None
      else if sq < 56 then Some \<lparr>piece_type = PAWN, color = BLACK\<rparr>
      else if sq < 64 then Some \<lparr>piece_type = back_rank ! (sq - 56), color = BLACK\<rparr>
      else None)"

definition starting_board :: board where
  "starting_board = \<lparr>piece_at = starting_piece_at, promoted = (\<lambda>_. False), turn = WHITE\<rparr>"

text \<open>
  The index formula in the words of the specification, for comparison with the loop body:
  \<^verbatim>\<open>index = kingSquare*10*64 + allyOrEnemyBucket*6*64 + pieceTypeBucket*64 + pieceSquare\<close>,
  squares rank-mirrored for the black perspective, bucket 0 for an ally and 1 for an enemy.
\<close>

definition spec_index :: "int \<Rightarrow> int \<Rightarrow> int \<Rightarrow> int \<Rightarrow> int" where
  "spec_index kingSquare allyOrEnemyBucket pieceTypeBucket pieceSquare =
     kingSquare * 10 * 64 + allyOrEnemyBucket * 6 * 64 + pieceTypeBucket * 64 + pieceSquare"

definition perspective_square :: "color \<Rightarrow> square \<Rightarrow> square" where
  "perspective_square c sq = (if c = BLACK then square_mirror sq else sq)"

definition ally_or_enemy :: "color \<Rightarrow> piece \<Rightarrow> int" where
  "ally_or_enemy c pc = (if color pc = c then 0 else 1)"

definition spec_piece_index :: "color \<Rightarrow> square \<Rightarrow> square \<times> piece \<Rightarrow> int" where
  "spec_piece_index c ks sp =
     spec_index (int (perspective_square c ks)) (ally_or_enemy c (snd sp))
       (piece_to_index (piece_type (snd sp))) (int (perspective_square c (fst sp)))"

definition non_king :: "square \<times> piece \<Rightarrow> bool" where
  "non_king sp = (piece_type (snd sp) \<noteq> KING)"

text \<open>Two small boards: an empty one, and kings on a1 and h8 with a white pawn on a2.\<close>

definition empty_board :: board where
  "empty_board = \<lparr>piece_at = (\<lambda>_. None), promoted = (\<lambda>_. False), turn = WHITE\<rparr>"

definition pawn_board :: board where
  "pawn_board =
     \<lparr>piece_at = (\<lambda>sq. if sq = 0 then Some \<lparr>piece_type = KING, color = WHITE\<rparr>
                       else if sq = 8 then Some \<lparr>piece_type = PAWN, color = WHITE\<rparr>
                       else if sq = 63 then Some \<lparr>piece_type = KING, color = BLACK\<rparr>
                       else None),
      promoted = (\<lambda>_. False), turn = BLACK\<rparr>"

section \<open>Errors and configuration\<close>

text \<open>
  The exceptions the modelled code can raise, each with the text that \<^verbatim>\<open>str(e)\<close> gives.
\<close>

datatype error = OSError string | StructError string | ZeroDivisionError string
  | RuntimeError string

fun str_error :: "error \<Rightarrow> string" where
  "str_error (OSError msg) = msg"
| "str_error (StructError msg) = msg"
| "str_error (ZeroDivisionError msg) = msg"
| "str_error (RuntimeError msg) = msg"

text \<open>The fields of \<^verbatim>\<open>TrainingConfig\<close> that the modelled functions read.\<close>

record training_config =
  input_size :: int
  hidden_size :: int
  eval_scale :: real

definition default_config :: training_config where
  "default_config = \<lparr>input_size = 768, hidden_size = 256, eval_scale = 361\<rparr>"

section \<open>Score mapping\<close>

text \<open>
  Scores are Python floats; they are modelled in exact arithmetic, as reals. The network
  \<^verbatim>\<open>self.model\<close> is a parameter: a function from a feature vector to a score that may
  raise (a shape mismatch).
\<close>

text \<open>Lines 66 to 71 of \<^verbatim>\<open>ModelEvaluator.evaluate_position\<close>.\<close>

definition to_external_score :: "training_config \<Rightarrow> color \<Rightarrow> real \<Rightarrow> real" where
  "to_external_score config side evaluation =
     (let evaluation = evaluation * eval_scale config
      in if side = BLACK then - evaluation else evaluation)"

definition evaluate_position ::
  "(features \<Rightarrow> error + real) \<Rightarrow> training_config \<Rightarrow> board \<Rightarrow> error + real" where
  "evaluate_position model config b =
     (case position_to_features b of (white_features, black_features) \<Rightarrow>
        let feats = (if turn b = WHITE then white_features else black_features)
        in case model feats of
             Inl e \<Rightarrow> Inl e
           | Inr evaluation \<Rightarrow> Inr (to_external_score config (turn b) evaluation))"

text \<open>\<^verbatim>\<open>np.clip(a, a_min, a_max)\<close> is \<^verbatim>\<open>minimum(maximum(a, a_min), a_max)\<close>.\<close>

definition clip :: "real \<Rightarrow> real \<Rightarrow> real \<Rightarrow> real" where
  "clip a a_min a_max = min (max a a_min) a_max"

text \<open>
  Lines 150 to 157 of \<^verbatim>\<open>ChessDataset.__getitem__\<close>: the sign flip for black to move,
  then the division by \<^verbatim>\<open>eval_scale\<close> (Python float division raises on a zero divisor)
  and the clipping.
\<close>

definition to_training_target :: "training_config \<Rightarrow> color \<Rightarrow> real \<Rightarrow> error + real" where
  "to_training_target config side evaluation =
     (let evaluation = (if side = WHITE then evaluation else - evaluation)
      in if eval_scale config = 0 then Inl (ZeroDivisionError ''float division by zero'')
         else Inr (clip (evaluation / eval_scale config) (- 1) 1))"

definition getitem ::
  "training_config \<Rightarrow> board \<times> real \<times> string \<Rightarrow> error + features \<times> real \<times> real" where
  "getitem config entry =
     (case entry of (b, evaluation, result) \<Rightarrow>
        case position_to_features b of (white_features, black_features) \<Rightarrow>
          let feats = (if turn b = WHITE then white_features else black_features)
          in case to_training_target config (turn b) evaluation of
               Inl e \<Rightarrow> Inl e
             | Inr evaluation \<Rightarrow>
                 let outcome =
                       (if result = ''1-0'' then (if turn b = WHITE then 1 else 0)
                        else if result = ''0-1'' then (if turn b = WHITE then 0 else 1)
                        else 1 / 2)
                 in Inr (feats, evaluation, outcome))"

section \<open>Bytes, strings and packing\<close>

type_synonym byte = "8 word"

text \<open>The decimal text of a Python int, as an f-string formats it.\<close>

fun digit_char :: "nat \<Rightarrow> char" where
  "digit_char n = char_of (48 + n)"

fun str_nat :: "nat \<Rightarrow> string" where
  "str_nat n = (if n < 10 then [digit_char n] else str_nat (n div 10) @ [digit_char (n mod 10)])"

declare str_nat.simps [simp del]

definition str_int :: "int \<Rightarrow> string" where
  "str_int i = (if i < 0 then CHR ''-'' # str_nat (nat (- i)) else str_nat (nat i))"

text \<open>
  \<^verbatim>\<open>str.encode('utf-8')\<close> on the code points below 256 that a \<^typ>\<open>char\<close> can hold: one
  byte below 128, two bytes from 128 on.
\<close>

definition utf8_encode_char :: "char \<Rightarrow> byte list" where
  "utf8_encode_char c =
     (let n = (of_char c :: nat) in
      if n < 128 then [of_nat n]
      else [of_nat (192 + n div 64), of_nat (128 + n mod 64)])"

definition utf8_encode :: "string \<Rightarrow> byte list" where
  "utf8_encode s = concat (map utf8_encode_char s)"

text \<open>The \<open>k\<close> low bytes of an integer, least significant first.\<close>

definition le_bytes :: "nat \<Rightarrow> int \<Rightarrow> byte list" where
  "le_bytes k n = map (\<lambda>i. word_of_int (n div 256 ^ i)) [0..<k]"

text \<open>\<^verbatim>\<open>struct.pack('<I', n)\<close> raises \<^verbatim>\<open>struct.error\<close> outside 0..2^32-1.\<close>

definition pack_I :: "int \<Rightarrow> error + byte list" where
  "pack_I n =
     (if 0 \<le> n \<and> n < 2 ^ 32 then Inr (le_bytes 4 n)
      else Inl (StructError ''argument out of range''))"

text \<open>\<^verbatim>\<open>ndarray.tobytes()\<close> of an array of w-bit integers (little-endian host).\<close>

definition tobytes :: "'a::len word list \<Rightarrow> byte list" where
  "tobytes ws = concat (map (\<lambda>w. le_bytes (LENGTH('a) div 8) (uint w)) ws)"

text \<open>\<^verbatim>\<open>sub in name\<close> on strings.\<close>

fun starts_with :: "string \<Rightarrow> string \<Rightarrow> bool" where
  "starts_with [] s = True"
| "starts_with (c # cs) [] = False"
| "starts_with (c # cs) (d # ds) = (c = d \<and> starts_with cs ds)"

fun contains :: "string \<Rightarrow> string \<Rightarrow> bool" where
  "contains sub [] = (sub = [])"
| "contains sub (c # cs) = (starts_with sub (c # cs) \<or> contains sub cs)"

section \<open>The network's parameters\<close>

text \<open>
  A parameter tensor: its shape and its elements in C order. The elements are float32
  values; their type is left open, and numpy's conversions \<^verbatim>\<open>astype(np.int8)\<close>,
  \<^verbatim>\<open>astype(np.int16)\<close> and \<^verbatim>\<open>astype(np.int32)\<close> are parameters of the exporter.
\<close>

record 'v tensor =
  shape :: "nat list"
  elements :: "'v list"

record 'v astype =
  astype_int8 :: "'v \<Rightarrow> 8 word"
  astype_int16 :: "'v \<Rightarrow> 16 word"
  astype_int32 :: "'v \<Rightarrow> 32 word"

text \<open>
  The parameters that \<^verbatim>\<open>NNUE.__init__\<close> registers: \<^verbatim>\<open>feature_transformer\<close> is
  \<^verbatim>\<open>Sequential(Linear, ReLU, Linear)\<close>, with parameters at positions 0 and 2;
  \<^verbatim>\<open>output_layers\<close> is \<^verbatim>\<open>Sequential(ReLU, Linear, ReLU, Linear, Tanh)\<close>, with
  parameters at positions 1 and 3.
\<close>

record 'v nnue =
  ft0_weight :: "'v tensor"
  ft0_bias :: "'v tensor"
  ft2_weight :: "'v tensor"
  ft2_bias :: "'v tensor"
  out1_weight :: "'v tensor"
  out1_bias :: "'v tensor"
  out3_weight :: "'v tensor"
  out3_bias :: "'v tensor"

text \<open>\<^verbatim>\<open>named_parameters()\<close> yields them in registration order.\<close>

definition named_parameters :: "'v nnue \<Rightarrow> (string \<times> 'v tensor) list" where
  "named_parameters m =
     [(''feature_transformer.0.weight'', ft0_weight m),
      (''feature_transformer.0.bias'', ft0_bias m),
      (''feature_transformer.2.weight'', ft2_weight m),
      (''feature_transformer.2.bias'', ft2_bias m),
      (''output_layers.1.weight'', out1_weight m),
      (''output_layers.1.bias'', out1_bias m),
      (''output_layers.3.weight'', out3_weight m),
      (''output_layers.3.bias'', out3_bias m)]"

text \<open>
  The shapes that \<^verbatim>\<open>NNUE.__init__\<close> gives the tensors for a configuration:
  \<^verbatim>\<open>Linear(n_in, n_out)\<close> has a weight of shape \<^verbatim>\<open>[n_out, n_in]\<close> and a bias of shape
  \<^verbatim>\<open>[n_out]\<close>.
\<close>

definition linear_shaped :: "nat \<Rightarrow> nat \<Rightarrow> 'v tensor \<Rightarrow> 'v tensor \<Rightarrow> bool" where
  "linear_shaped n_in n_out w b =
     (shape w = [n_out, n_in] \<and> length (elements w) = n_out * n_in \<and>
      shape b = [n_out] \<and> length (elements b) = n_out)"

definition nnue_shaped :: "training_config \<Rightarrow> 'v nnue \<Rightarrow> bool" where
  "nnue_shaped config m =
     (0 \<le> input_size config \<and> 0 \<le> hidden_size config \<and>
      linear_shaped (nat (input_size config)) (nat (hidden_size config)) (ft0_weight m) (ft0_bias m) \<and>
      linear_shaped (nat (hidden_size config)) 32 (ft2_weight m) (ft2_bias m) \<and>
      linear_shaped 32 32 (out1_weight m) (out1_bias m) \<and>
      linear_shaped 32 1 (out3_weight m) (out3_bias m))"

section \<open>Files and output\<close>

text \<open>
  The part of the world that \<^verbatim>\<open>export_stockfish_nnue\<close> touches: the files by path, which
  paths can be opened for writing, how many further \<^verbatim>\<open>f.write\<close> calls succeed before the
  device fails (\<open>None\<close>: all of them), the number of \<^verbatim>\<open>f.write\<close> calls made, and the lines
  printed. Writes are taken as unbuffered: a failing write raises at once and adds nothing.
\<close>

record io =
  files :: "string \<Rightarrow> byte list option"
  can_open :: "string \<Rightarrow> bool"
  write_budget :: "nat option"
  write_calls :: nat
  stdout :: "string list"

type_synonym 'a action = "io \<Rightarrow> (error + 'a) \<times> io"

definition print :: "string \<Rightarrow> io \<Rightarrow> io" where
  "print line w = w\<lparr>stdout := stdout w @ [line]\<rparr>"

text \<open>\<^verbatim>\<open>open(path, 'wb')\<close>: creates or truncates the file; the handle is the path.\<close>

definition open_wb :: "string \<Rightarrow> string action" where
  "open_wb path w =
     (if can_open w path then (Inr path, w\<lparr>files := (files w)(path \<mapsto> [])\<rparr>)
      else (Inl (OSError ''cannot open file''), w))"

definition append_file :: "string \<Rightarrow> byte list \<Rightarrow> io \<Rightarrow> io" where
  "append_file f bs w =
     w\<lparr>files := (files w)(f \<mapsto> (case files w f of None \<Rightarrow> [] | Some old \<Rightarrow> old) @ bs)\<rparr>"

definition f_write :: "string \<Rightarrow> byte list \<Rightarrow> unit action" where
  "f_write f bs w =
     (let w = w\<lparr>write_calls := Suc (write_calls w)\<rparr> in
      case write_budget w of
        None \<Rightarrow> (Inr (), append_file f bs w)
      | Some 0 \<Rightarrow> (Inl (OSError ''write failed''), w)
      | Some (Suc n) \<Rightarrow> (Inr (), append_file f bs (w\<lparr>write_budget := Some n\<rparr>)))"

text \<open>Sequencing: an exception ends the sequence and is the result.\<close>

definition then_io :: "'a action \<Rightarrow> ('a \<Rightarrow> 'b action) \<Rightarrow> 'b action" where
  "then_io m k w = (case m w of (Inl e, w') \<Rightarrow> (Inl e, w') | (Inr x, w') \<Rightarrow> k x w')"

definition pure_io :: "error + 'a \<Rightarrow> 'a action" where
  "pure_io r w = (r, w)"

fun for_each :: "('a \<Rightarrow> unit action) \<Rightarrow> 'a list \<Rightarrow> unit action" where
  "for_each body [] w = (Inr (), w)"
| "for_each body (x # xs) w =
     (case body x w of (Inl e, w') \<Rightarrow> (Inl e, w') | (Inr u, w') \<Rightarrow> for_each body xs w')"

section \<open>NNUEExporter\<close>

definition write_feature_transformer :: "'v astype \<Rightarrow> 'v nnue \<Rightarrow> string \<Rightarrow> unit action" where
  "write_feature_transformer cast m f =
     for_each (\<lambda>(name, param).
         if contains ''feature_transformer.0.weight'' name
         then f_write f (tobytes (map (astype_int16 cast) (elements param)))
         else if contains ''feature_transformer.0.bias'' name
         then f_write f (tobytes (map (astype_int32 cast) (elements param)))
         else pure_io (Inr ()))
       (named_parameters m)"

definition write_output_layers :: "'v astype \<Rightarrow> 'v nnue \<Rightarrow> string \<Rightarrow> unit action" where
  "write_output_layers cast m f =
     for_each (\<lambda>(name, param).
         if contains ''output_layers'' name
         then (if contains ''weight'' name
               then f_write f (tobytes (map (astype_int8 cast) (elements param)))
               else if contains ''bias'' name
               then f_write f (tobytes (map (astype_int32 cast) (elements param)))
               else pure_io (Inr ()))
         else pure_io (Inr ()))
       (named_parameters m)"

definition magic_tag :: "byte list" where
  "magic_tag = utf8_encode ''NNUE''"

definition description_of :: "training_config \<Rightarrow> string" where
  "description_of config =
     ''NNUE '' @ str_int (input_size config) @ ''->'' @ str_int (hidden_size config) @ ''->1''"

text \<open>The body of the \<^verbatim>\<open>with open(output_path, 'wb') as f\<close> block, with its opening.\<close>

definition export_body ::
  "'v astype \<Rightarrow> training_config \<Rightarrow> 'v nnue \<Rightarrow> string \<Rightarrow> unit action" where
  "export_body cast config m output_path =
     then_io (open_wb output_path) (\<lambda>f.
     then_io (f_write f magic_tag) (\<lambda>_.
     then_io (pure_io (pack_I 0x7AF32F16)) (\<lambda>version.
     then_io (f_write f version) (\<lambda>_.
     then_io (pure_io (pack_I 177)) (\<lambda>architecture.
     then_io (f_write f architecture) (\<lambda>_.
     let description_bytes = utf8_encode (description_of config) in
     then_io (pure_io (pack_I (int (length description_bytes)))) (\<lambda>n.
     then_io (f_write f n) (\<lambda>_.
     then_io (f_write f description_bytes) (\<lambda>_.
     then_io (write_feature_transformer cast m f) (\<lambda>_.
     write_output_layers cast m f))))))))))"

text \<open>
  \<^verbatim>\<open>export_stockfish_nnue\<close>: the body runs inside \<^verbatim>\<open>try\<close>, and
  \<^verbatim>\<open>except Exception as e\<close> prints the failure and falls through to the end of the
  method.
\<close>

definition export_stockfish_nnue ::
  "'v astype \<Rightarrow> training_config \<Rightarrow> 'v nnue \<Rightarrow> string \<Rightarrow> unit action" where
  "export_stockfish_nnue cast config m output_path w =
     (let w = print (''Exporting to Stockfish NNUE format: '' @ output_path) w in
      case export_body cast config m output_path w of
        (Inr u, w') \<Rightarrow> (Inr (), print (''Successfully exported to '' @ output_path) w')
      | (Inl e, w') \<Rightarrow> (Inr (), print (''Export failed: '' @ str_error e) w'))"

text \<open>
  The byte strings that a complete export writes, one per \<^verbatim>\<open>f.write\<close> call, in order;
  and the action that writes a list of byte strings one after the other.
\<close>

definition export_chunks :: "'v astype \<Rightarrow> training_config \<Rightarrow> 'v nnue \<Rightarrow> byte list list" where
  "export_chunks cast config m =
     [magic_tag,
      le_bytes 4 0x7AF32F16,
      le_bytes 4 177,
      le_bytes 4 (int (length (utf8_encode (description_of config)))),
      utf8_encode (description_of config),
      tobytes (map (astype_int16 cast) (elements (ft0_weight m))),
      tobytes (map (astype_int32 cast) (elements (ft0_bias m))),
      tobytes (map (astype_int8 cast) (elements (out1_weight m))),
      tobytes (map (astype_int32 cast) (elements (out1_bias m))),
      tobytes (map (astype_int8 cast) (elements (out3_weight m))),
      tobytes (map (astype_int32 cast) (elements (out3_bias m)))]"

definition write_all :: "string \<Rightarrow> byte list list \<Rightarrow> unit action" where
  "write_all f chunks = for_each (f_write f) chunks"

section \<open>Reading the header back\<close>

text \<open>
  The repository has no loader for the exported file. The reader below follows the
  layout of section 4.4 of the specification: four bytes of magic tag, two little-endian
  32-bit identifiers, a little-endian 32-bit length N, and N bytes of UTF-8.
\<close>

definition unpack_I :: "byte list \<Rightarrow> int" where
  "unpack_I bs = foldr (\<lambda>b acc. uint b + 256 * acc) bs 0"

fun utf8_decode :: "byte list \<Rightarrow> string option" where
  "utf8_decode [] = Some []"
| "utf8_decode [b] =
     (if unat b < 128 then Some [char_of (unat b)] else None)"
| "utf8_decode (b # b2 # bs) =
     (if unat b < 128 then map_option ((#) (char_of (unat b))) (utf8_decode (b2 # bs))
      else if 194 \<le> unat b \<and> unat b < 196 \<and> 128 \<le> unat b2 \<and> unat b2 < 192
      then map_option ((#) (char_of ((unat b - 192) * 64 + (unat b2 - 128)))) (utf8_decode bs)
      else None)"

record header =
  magic :: "byte list"
  version :: int
  architecture :: int
  description :: string

definition read_header :: "byte list \<Rightarrow> (header \<times> byte list) option" where
  "read_header bs =
     (if length bs < 16 then None
      else
        let n = nat (unpack_I (take 4 (drop 12 bs)));
            body = drop 16 bs
        in if length body < n then None
           else case utf8_decode (take n body) of
                  None \<Rightarrow> None
                | Some d \<Rightarrow>
                    Some (\<lparr>magic = take 4 bs,
                           version = unpack_I (take 4 (drop 4 bs)),
                           architecture = unpack_I (take 4 (drop 8 bs)),
                           description = d\<rparr>,
                          drop n body))"

section \<open>Concrete networks and environments\<close>

text \<open>
  A network of the shapes of \<^verbatim>\<open>NNUE.__init__\<close> with every parameter equal to \<open>v\<close>, a
  conversion on integer-valued parameters that keeps the low bits, and two environments:
  one where nothing fails and one whose device fails at the fourth write.
\<close>

definition constant_tensor :: "nat list \<Rightarrow> 'v \<Rightarrow> 'v tensor" where
  "constant_tensor dims v = \<lparr>shape = dims, elements = replicate (prod_list dims) v\<rparr>"

definition constant_nnue :: "training_config \<Rightarrow> 'v \<Rightarrow> 'v nnue" where
  "constant_nnue config v =
     \<lparr>ft0_weight = constant_tensor [nat (hidden_size config), nat (input_size config)] v,
      ft0_bias = constant_tensor [nat (hidden_size config)] v,
      ft2_weight = constant_tensor [32, nat (hidden_size config)] v,
      ft2_bias = constant_tensor [32] v,
      out1_weight = constant_tensor [32, 32] v,
      out1_bias = constant_tensor [32] v,
      out3_weight = constant_tensor [1, 32] v,
      out3_bias = constant_tensor [1] v\<rparr>"

definition low_bits :: "int astype" where
  "low_bits = \<lparr>astype_int8 = word_of_int, astype_int16 = word_of_int, astype_int32 = word_of_int\<rparr>"

definition healthy_io :: io where
  "healthy_io =
     \<lparr>files = (\<lambda>_. None), can_open = (\<lambda>_. True), write_budget = None, write_calls = 0,
      stdout = []\<rparr>"


section \<open>The network in exact arithmetic\<close>

text \<open>
  \<^verbatim>\<open>NNUE.forward\<close> on one feature vector, with PyTorch's float32 arithmetic replaced by
  exact real arithmetic. \<^verbatim>\<open>Linear\<close> computes \<open>x W\<^sup>T + b\<close> for a weight of shape
  \<^verbatim>\<open>[n_out, n_in]\<close> stored in C order and raises on an input of another length;
  \<^verbatim>\<open>feature_transformer\<close> is \<^verbatim>\<open>Sequential(Linear, ReLU, Linear)\<close> and
  \<^verbatim>\<open>output_layers\<close> is \<^verbatim>\<open>Sequential(ReLU, Linear, ReLU, Linear, Tanh)\<close>.
\<close>

definition and_then :: "error + 'a \<Rightarrow> ('a \<Rightarrow> error + 'b) \<Rightarrow> error + 'b" where
  "and_then r k = (case r of Inl e \<Rightarrow> Inl e | Inr x \<Rightarrow> k x)"

definition linear_layer :: "real tensor \<Rightarrow> real tensor \<Rightarrow> real list \<Rightarrow> error + real list" where
  "linear_layer w b x =
     (case shape w of
        [n_out, n_in] \<Rightarrow>
          if length x \<noteq> n_in
          then Inl (RuntimeError ''mat1 and mat2 shapes cannot be multiplied'')
          else Inr (map (\<lambda>j. sum_list (map (\<lambda>i. x ! i * elements w ! (j * n_in + i)) [0..<n_in])
                               + elements b ! j)
                      [0..<n_out])
      | _ \<Rightarrow> Inl (RuntimeError ''weight is not a matrix''))"

definition relu :: "real list \<Rightarrow> real list" where
  "relu x = map (max 0) x"

definition tanh_layer :: "real list \<Rightarrow> real list" where
  "tanh_layer x = map tanh x"

definition feature_transformer :: "real nnue \<Rightarrow> real list \<Rightarrow> error + real list" where
  "feature_transformer m x =
     and_then (linear_layer (ft0_weight m) (ft0_bias m) x) (\<lambda>h.
     linear_layer (ft2_weight m) (ft2_bias m) (relu h))"

definition output_layers :: "real nnue \<Rightarrow> real list \<Rightarrow> error + real list" where
  "output_layers m feats =
     and_then (linear_layer (out1_weight m) (out1_bias m) (relu feats)) (\<lambda>h.
     and_then (linear_layer (out3_weight m) (out3_bias m) (relu h)) (\<lambda>y.
     Inr (tanh_layer y)))"

definition forward :: "real nnue \<Rightarrow> real list \<Rightarrow> error + real list" where
  "forward m x = and_then (feature_transformer m x) (output_layers m)"

section \<open>Properties of the feature encoding\<close>

lemma halfkp_step_length: "length (halfkp_step c k feats sp) = length feats"
  by (cases sp) (simp add: halfkp_step_def Let_def)

lemma halfkp_step_nth:
  assumes "length feats = 768" and "i < 768"
  shows "halfkp_step c (perspective_square c ks) feats sp ! i =
           (if non_king sp \<and> spec_piece_index c ks sp = int i then 1 else feats ! i)"
proof (cases "non_king sp")
  case False
  then show ?thesis
    by (cases sp) (simp add: halfkp_step_def non_king_def)
next
  case True
  let ?idx = "spec_piece_index c ks sp"
  have step: "halfkp_step c (perspective_square c ks) feats sp =
                (if 0 \<le> ?idx \<and> ?idx < 768 then feats[nat ?idx := 1] else feats)"
    using True
    by (cases sp)
      (simp add: halfkp_step_def Let_def spec_piece_index_def spec_index_def
         perspective_square_def ally_or_enemy_def non_king_def)
  show ?thesis
  proof (cases "?idx = int i")
    case eq: True
    then show ?thesis using assms True by (simp add: step)
  next
    case ne: False
    then have "nat ?idx \<noteq> i \<or> \<not> 0 \<le> ?idx" by auto
    then show ?thesis using ne by (auto simp: step)
  qed
qed

lemma foldl_halfkp_step_length:
  "length (foldl (halfkp_step c k) feats ps) = length feats"
  by (induction ps arbitrary: feats) (simp_all add: halfkp_step_length)

lemma foldl_halfkp_step_nth:
  assumes "length feats = 768" and "i < 768"
  shows "foldl (halfkp_step c (perspective_square c ks)) feats ps ! i =
           (if \<exists>sp \<in> set ps. non_king sp \<and> spec_piece_index c ks sp = int i then 1
            else feats ! i)"
  using assms
proof (induction ps arbitrary: feats)
  case Nil
  then show ?case by simp
next
  case (Cons sp ps)
  have len: "length (halfkp_step c (perspective_square c ks) feats sp) = 768"
    using Cons.prems by (simp add: halfkp_step_length)
  show ?case
    using Cons.IH [OF len \<open>i < 768\<close>] halfkp_step_nth [OF Cons.prems, of c ks sp]
    by auto
qed

lemma get_halfkp_features_length: "length (get_halfkp_features b c) = 768"
  by (simp add: get_halfkp_features_def Let_def foldl_halfkp_step_length split: option.split)

lemma pawn_board_king: "king pawn_board WHITE = Some 0"
  by code_simp

lemma empty_board_king: "king empty_board WHITE = None"
  by code_simp

text \<open>
  Claim C2. Once the king of the perspective is found on \<open>ks\<close>, entry \<open>i\<close> of the
  feature vector is 1 exactly when some non-king piece of the piece map has the index
  \<open>kingSquare*10*64 + allyOrEnemyBucket*6*64 + pieceTypeBucket*64 + pieceSquare = i\<close>
  (king square and piece square rank-mirrored for black), and 0 otherwise. As \<open>i\<close> ranges
  over the 768 entries only, a piece whose index is 768 or more writes nothing, and the
  encoder returns a vector all the same.
\<close>

theorem halfkp_index_formula_and_guard:
  assumes "king b c = Some ks" and "i < 768"
  shows "length (get_halfkp_features b c) = 768 \<and>
         get_halfkp_features b c ! i =
           (if \<exists>sp \<in> set (piece_map b). non_king sp \<and> spec_piece_index c ks sp = int i
            then 1 else 0)"
proof -
  have "get_halfkp_features b c =
          foldl (halfkp_step c (perspective_square c ks)) (replicate 768 0) (piece_map b)"
    using assms(1) by (simp add: get_halfkp_features_def perspective_square_def)
  then show ?thesis
    using foldl_halfkp_step_nth [of "replicate 768 0" i c ks "piece_map b"] assms(2)
    by (simp add: foldl_halfkp_step_length)
qed

theorem halfkp_index_formula_and_guard_witness:
  "king pawn_board WHITE = Some 0 \<and> (8::nat) < 768 \<and>
   length (get_halfkp_features pawn_board WHITE) = 768 \<and>
   get_halfkp_features pawn_board WHITE ! 8 = 1"
proof -
  have hit: "\<exists>sp \<in> set (piece_map pawn_board). non_king sp \<and> spec_piece_index WHITE 0 sp = int 8"
    by code_simp
  show ?thesis
    using halfkp_index_formula_and_guard [OF pawn_board_king, of 8] hit pawn_board_king
    by simp
qed

text \<open>
  Claim C10. When \<^verbatim>\<open>board.king(color)\<close> finds no king, the encoder returns the vector of
  768 zeros; it is a value, not an error.
\<close>

theorem missing_king_gives_zero_vector:
  assumes "king b c = None"
  shows "get_halfkp_features b c = replicate 768 0"
  using assms by (simp add: get_halfkp_features_def)

theorem missing_king_gives_zero_vector_witness:
  "king empty_board WHITE = None \<and> get_halfkp_features empty_board WHITE = replicate 768 0"
  using missing_king_gives_zero_vector [OF empty_board_king] empty_board_king by simp

text \<open>
  Claim C1, at the standard starting position. Both kings are found (e1 is square 4, e8
  is square 60, mirrored to 4), the board has 30 non-king pieces, and yet no bit is set
  for either perspective: with a king square of 4 every index is at least
  \<open>4 * 10 * 64 = 2560\<close>, beyond the 768 entries, and the guard of line 124 drops it.
\<close>

theorem starting_position_sets_no_bit:
  "king starting_board WHITE = Some 4 \<and> king starting_board BLACK = Some 60 \<and>
   length (filter non_king (piece_map starting_board)) = 30 \<and>
   set_bits (get_halfkp_features starting_board WHITE) = 0 \<and>
   set_bits (get_halfkp_features starting_board BLACK) = 0"
  by code_simp

section \<open>Properties of the network in exact arithmetic\<close>

text \<open>
  In exact arithmetic a network of the configured shapes maps a vector of the configured
  length to one number, the hyperbolic tangent of the last linear layer's output, which is
  strictly between -1 and 1. The float32 \<^verbatim>\<open>tanh\<close> of PyTorch rounds, and a rounded value
  can be 1 or -1; that is outside this model.
\<close>

lemma linear_layer_shaped:
  assumes "linear_shaped n_in n_out w b" and "length x = n_in"
  shows "\<exists>y. linear_layer w b x = Inr y \<and> length y = n_out"
  using assms by (simp add: linear_layer_def linear_shaped_def)

lemma forward_exact_arithmetic:
  assumes "nnue_shaped config m" and "length x = nat (input_size config)"
  shows "\<exists>y. forward m x = Inr [y] \<and> - 1 < y \<and> y < 1"
proof -
  have s0: "linear_shaped (nat (input_size config)) (nat (hidden_size config))
              (ft0_weight m) (ft0_bias m)"
    and s2: "linear_shaped (nat (hidden_size config)) 32 (ft2_weight m) (ft2_bias m)"
    and s1: "linear_shaped 32 32 (out1_weight m) (out1_bias m)"
    and s3: "linear_shaped 32 1 (out3_weight m) (out3_bias m)"
    using assms(1) by (simp_all add: nnue_shaped_def)
  from linear_layer_shaped [OF s0 assms(2)]
  obtain h where h: "linear_layer (ft0_weight m) (ft0_bias m) x = Inr h"
      "length h = nat (hidden_size config)"
    by blast
  have "length (relu h) = nat (hidden_size config)"
    using h(2) by (simp add: relu_def)
  from linear_layer_shaped [OF s2 this]
  obtain f where f: "linear_layer (ft2_weight m) (ft2_bias m) (relu h) = Inr f"
      "length f = 32"
    by blast
  have "length (relu f) = 32"
    using f(2) by (simp add: relu_def)
  from linear_layer_shaped [OF s1 this]
  obtain g where g: "linear_layer (out1_weight m) (out1_bias m) (relu f) = Inr g"
      "length g = 32"
    by blast
  have "length (relu g) = 32"
    using g(2) by (simp add: relu_def)
  from linear_layer_shaped [OF s3 this]
  obtain ys where ys: "linear_layer (out3_weight m) (out3_bias m) (relu g) = Inr ys"
      "length ys = 1"
    by blast
  from ys(2) obtain z where z: "ys = [z]"
    by (cases ys) auto
  have "forward m x = Inr [tanh z]"
    by (simp add: forward_def feature_transformer_def output_layers_def and_then_def
          h f g ys [unfolded z] tanh_layer_def)
  moreover have "- 1 < tanh z" "tanh z < 1"
    by (simp_all add: tanh_real_gt_neg1 tanh_real_lt_1)
  ultimately show ?thesis by blast
qed

section \<open>Properties of the score mapping\<close>

text \<open>
  Claim C7. When the network returns \<open>x\<close> on the features of the side to move,
  \<^verbatim>\<open>evaluate_position\<close> returns \<open>x * eval_scale\<close> with white to move and its negation
  with black to move.
\<close>

theorem external_score_rule:
  assumes "model (if turn b = WHITE then get_halfkp_features b WHITE
                  else get_halfkp_features b BLACK) = Inr x"
  shows "evaluate_position model config b =
           Inr (if turn b = BLACK then - (x * eval_scale config) else x * eval_scale config)"
  using assms
  by (simp add: evaluate_position_def position_to_features_def to_external_score_def Let_def)

theorem external_score_rule_witness:
  "(\<lambda>_. Inr (1 / 2)) (if turn pawn_board = WHITE then get_halfkp_features pawn_board WHITE
                  else get_halfkp_features pawn_board BLACK) = (Inr (1 / 2) :: error + real) \<and>
   evaluate_position (\<lambda>_. Inr (1 / 2)) default_config pawn_board = Inr (- (361 / 2))"
  using external_score_rule [of "\<lambda>_. Inr (1 / 2)" pawn_board "1 / 2" default_config]
  by (simp add: pawn_board_def default_config_def)

text \<open>
  Claim C8. For \<open>x\<close> strictly between -1 and 1 and either side to move, the training
  target of the external score of \<open>x\<close> is \<open>x\<close> again (in exact arithmetic), for every
  nonzero \<^verbatim>\<open>eval_scale\<close>.
\<close>

theorem score_round_trip:
  assumes "- 1 < x" and "x < 1" and "eval_scale config \<noteq> 0"
  shows "to_training_target config side (to_external_score config side x) = Inr x"
  using assms
  by (cases side) (simp_all add: to_training_target_def to_external_score_def clip_def Let_def)

theorem score_round_trip_witness:
  "- 1 < (1 / 4 :: real) \<and> (1 / 4 :: real) < 1 \<and> eval_scale default_config \<noteq> 0 \<and>
   to_training_target default_config BLACK (to_external_score default_config BLACK (1 / 4))
     = Inr (1 / 4)"
  using score_round_trip [of "1 / 4" default_config BLACK]
  by (simp add: default_config_def)

section \<open>Properties of the exporter\<close>

subsection \<open>The writes of an export\<close>

lemma write_feature_transformer_eq:
  "write_feature_transformer cast m f =
     write_all f [tobytes (map (astype_int16 cast) (elements (ft0_weight m))),
                  tobytes (map (astype_int32 cast) (elements (ft0_bias m)))]"
  by (rule ext) (simp add: write_feature_transformer_def write_all_def named_parameters_def
        pure_io_def split: prod.split sum.split)

lemma write_output_layers_eq:
  "write_output_layers cast m f =
     write_all f [tobytes (map (astype_int8 cast) (elements (out1_weight m))),
                  tobytes (map (astype_int32 cast) (elements (out1_bias m))),
                  tobytes (map (astype_int8 cast) (elements (out3_weight m))),
                  tobytes (map (astype_int32 cast) (elements (out3_bias m)))]"
  by (rule ext) (simp add: write_output_layers_def write_all_def named_parameters_def
        pure_io_def split: prod.split sum.split)

lemma write_all_Cons:
  "write_all f (x # xs) = then_io (f_write f x) (\<lambda>_. write_all f xs)"
  by (rule ext) (simp add: write_all_def then_io_def split: prod.split sum.split)

lemma write_all_Nil: "write_all f [] = pure_io (Inr ())"
  by (rule ext) (simp add: write_all_def pure_io_def)

lemma then_io_pure: "then_io (pure_io (Inr x)) k = k x"
  by (rule ext) (simp add: then_io_def pure_io_def)

lemma then_io_pure_right: "then_io a (\<lambda>_. pure_io (Inr ())) = a"
  by (rule ext) (auto simp: then_io_def pure_io_def split: prod.split sum.split)

lemma then_io_assoc:
  "then_io (then_io a k1) k2 = then_io a (\<lambda>x. then_io (k1 x) k2)"
  by (rule ext) (simp add: then_io_def split: prod.split sum.split)

lemma export_body_eq:
  assumes "int (length (utf8_encode (description_of config))) < 2 ^ 32"
  shows "export_body cast config m path =
           then_io (open_wb path) (\<lambda>f. write_all f (export_chunks cast config m))"
  using assms
  by (simp add: export_body_def export_chunks_def pack_I_def then_io_pure Let_def
        write_feature_transformer_eq write_output_layers_eq write_all_Cons write_all_Nil
        then_io_assoc then_io_pure_right)

lemma write_all_unlimited:
  assumes "write_budget w = None" and "files w f = Some old"
  shows "write_all f chunks w =
           (Inr (), w\<lparr>files := (files w)(f \<mapsto> old @ concat chunks),
                      write_calls := write_calls w + length chunks\<rparr>)"
  using assms
proof (induction chunks arbitrary: w old)
  case Nil
  then show ?case
    by (simp add: write_all_def fun_upd_idem)
next
  case (Cons c cs)
  let ?w1 = "append_file f c (w\<lparr>write_calls := Suc (write_calls w)\<rparr>)"
  have step: "f_write f c w = (Inr (), ?w1)"
    using Cons.prems by (simp add: f_write_def)
  have b1: "write_budget ?w1 = None" and f1: "files ?w1 f = Some (old @ c)"
    using Cons.prems by (simp_all add: append_file_def)
  show ?case
    using Cons.prems
    by (simp add: write_all_Cons then_io_def step Cons.IH [OF b1 f1])
      (simp add: append_file_def fun_upd_def cong: if_cong)
qed


subsection \<open>Packing and reading back\<close>

lemma length_le_bytes: "length (le_bytes k n) = k"
  by (simp add: le_bytes_def)

lemma le_bytes_4:
  "le_bytes 4 n =
     [word_of_int n, word_of_int (n div 256), word_of_int (n div 65536),
      word_of_int (n div 16777216)]"
  by (simp add: le_bytes_def upt_rec)

lemma unpack_I_le_bytes:
  assumes "0 \<le> n" and "n < 2 ^ 32"
  shows "unpack_I (le_bytes 4 n) = n"
proof -
  define a where "a = n div 256"
  define b where "b = a div 256"
  define c where "c = b div 256"
  have e1: "n div 65536 = b" and e2: "n div 16777216 = c"
    by (simp_all add: a_def b_def c_def zdiv_zmult2_eq)
  have "0 \<le> c" "c < 256"
    using assms by (simp_all add: e2 [symmetric])
  then have c: "c mod 256 = c" by simp
  have s1: "b mod 256 + 256 * c = b"
    unfolding c_def by (rule mod_mult_div_eq)
  have s2: "a mod 256 + 256 * b = a"
    unfolding b_def by (rule mod_mult_div_eq)
  have s3: "n mod 256 + 256 * a = n"
    unfolding a_def by (rule mod_mult_div_eq)
  have "unpack_I (le_bytes 4 n) =
          n mod 256 + 256 * (a mod 256 + 256 * (b mod 256 + 256 * (c mod 256)))"
    by (simp add: unpack_I_def le_bytes_4 uint_word_of_int e1 e2 a_def [symmetric])
  also have "\<dots> = n mod 256 + 256 * (a mod 256 + 256 * b)"
    by (simp only: c s1)
  also have "\<dots> = n mod 256 + 256 * a"
    by (simp only: s2)
  also have "\<dots> = n"
    by (simp only: s3)
  finally show ?thesis .
qed

lemma unat_byte_of_nat: "n < 256 \<Longrightarrow> unat (of_nat n :: byte) = n"
  by (simp add: unat_of_nat)

lemma utf8_decode_char:
  "utf8_decode (utf8_encode_char c @ bs) = map_option ((#) c) (utf8_decode bs)"
proof (cases "(of_char c :: nat) < 128")
  case True
  then have enc: "utf8_encode_char c = [of_nat (of_char c)]"
    by (simp add: utf8_encode_char_def)
  have u: "unat (of_nat (of_char c) :: byte) = of_char c"
    by (simp add: unat_byte_of_nat)
  show ?thesis
    using True by (cases bs) (simp_all add: enc u)
next
  case False
  define n :: nat where "n = of_char c"
  have n: "128 \<le> n" "n < 256"
    using False by (simp_all add: n_def)
  have enc: "utf8_encode_char c = [of_nat (192 + n div 64), of_nat (128 + n mod 64)]"
    using False by (simp add: utf8_encode_char_def n_def Let_def del: of_nat_add)
  have hi: "192 + n div 64 < 256" "194 \<le> 192 + n div 64" "192 + n div 64 < 196"
    using n by simp_all
  have u1: "unat (of_nat (192 + n div 64) :: byte) = 192 + n div 64"
    using hi(1) by (rule unat_byte_of_nat)
  have u2: "unat (of_nat (128 + n mod 64) :: byte) = 128 + n mod 64"
    by (rule unat_byte_of_nat) simp
  have recomb: "char_of n = c"
    by (simp add: n_def)
  show ?thesis
    using hi by (simp add: enc u1 u2 recomb del: of_nat_add)
qed

lemma utf8_round_trip: "utf8_decode (utf8_encode s) = Some s"
  by (induction s) (simp_all add: utf8_encode_def utf8_decode_char)

lemma length_magic_tag: "length magic_tag = 4"
  by (simp add: magic_tag_def utf8_encode_def utf8_encode_char_def)

subsection \<open>Running an export\<close>

lemma default_description: "description_of default_config = ''NNUE 768->256->1''"
  by code_simp

lemma default_description_length:
  "int (length (utf8_encode (description_of default_config))) < 2 ^ 32"
  by (simp add: default_description utf8_encode_def utf8_encode_char_def)

lemma length_export_chunks: "length (export_chunks cast config m) = 11"
  by (simp add: export_chunks_def)

lemma export_body_unlimited:
  assumes "can_open w path" and "write_budget w = None"
    and "int (length (utf8_encode (description_of config))) < 2 ^ 32"
  shows "export_body cast config m path w =
           (Inr (), w\<lparr>files := (files w)(path \<mapsto> concat (export_chunks cast config m)),
                      write_calls := write_calls w + 11\<rparr>)"
proof -
  let ?w0 = "w\<lparr>files := (files w)(path \<mapsto> [])\<rparr>"
  have "write_budget ?w0 = None" and "files ?w0 path = Some []"
    using assms(2) by simp_all
  from write_all_unlimited [OF this, of "export_chunks cast config m"]
  show ?thesis
    using assms(1)
    by (simp add: export_body_eq [OF assms(3)] then_io_def open_wb_def length_export_chunks)
qed


lemma export_run_unlimited:
  assumes "can_open w path" and "write_budget w = None"
    and "int (length (utf8_encode (description_of config))) < 2 ^ 32"
  shows "export_stockfish_nnue cast config m path w =
           (Inr (),
            w\<lparr>files := (files w)(path \<mapsto> concat (export_chunks cast config m)),
              write_calls := write_calls w + 11,
              stdout := stdout w @ [''Exporting to Stockfish NNUE format: '' @ path,
                                    ''Successfully exported to '' @ path]\<rparr>)"
proof -
  let ?w1 = "print (''Exporting to Stockfish NNUE format: '' @ path) w"
  have "can_open ?w1 path" and "write_budget ?w1 = None"
    using assms(1,2) by (simp_all add: print_def)
  from export_body_unlimited [OF this assms(3), of cast m]
  show ?thesis
    by (simp add: export_stockfish_nnue_def print_def)
qed

lemma read_header_layout:
  assumes "0 \<le> v" and "v < 2 ^ 32" and "0 \<le> a" and "a < 2 ^ 32" and "length mg = 4"
    and "int (length (utf8_encode d)) < 2 ^ 32"
  shows "read_header (mg @ le_bytes 4 v @ le_bytes 4 a
                        @ le_bytes 4 (int (length (utf8_encode d))) @ utf8_encode d @ rest)
           = Some (\<lparr>magic = mg, version = v, architecture = a, description = d\<rparr>, rest)"
  using assms
  by (simp add: read_header_def length_le_bytes unpack_I_le_bytes utf8_round_trip Let_def)

lemma length_tobytes:
  "length (tobytes (ws :: 'a::len word list)) = LENGTH('a) div 8 * length ws"
  by (induction ws) (simp_all add: tobytes_def length_le_bytes)

lemma export_body_ignores_ft2:
  "export_body cast config (m\<lparr>ft2_weight := t1, ft2_bias := t2\<rparr>) path
     = export_body cast config m path"
  by (simp add: export_body_def write_feature_transformer_eq write_output_layers_eq)

lemma healthy_io_ok: "can_open healthy_io p" "write_budget healthy_io = None"
  by (simp_all add: healthy_io_def)

lemma constant_nnue_shaped:
  "0 \<le> input_size config \<Longrightarrow> 0 \<le> hidden_size config \<Longrightarrow>
   nnue_shaped config (constant_nnue config v)"
  by (simp add: nnue_shaped_def linear_shaped_def constant_nnue_def constant_tensor_def)




text \<open>
  Claim C4. A successful export leaves a file that starts with the four bytes of
  \<^verbatim>\<open>NNUE\<close>, the little-endian 32-bit values 0x7AF32F16 and 177, the little-endian 32-bit
  length N of the encoded description and the N bytes of the UTF-8 encoding of
  \<^verbatim>\<open>NNUE {input_size}->{hidden_size}->1\<close>; reading the header back gives the same magic
  tag, identifiers and description, and leaves the rest of the file.
\<close>

theorem exported_header_round_trip:
  assumes "can_open w path" and "write_budget w = None"
    and "int (length (utf8_encode (description_of config))) < 2 ^ 32"
  shows "\<exists>rest.
           files (snd (export_stockfish_nnue cast config m path w)) path
             = Some (utf8_encode ''NNUE'' @ le_bytes 4 0x7AF32F16 @ le_bytes 4 177
                       @ le_bytes 4 (int (length (utf8_encode (description_of config))))
                       @ utf8_encode (description_of config) @ rest) \<and>
           description_of config
             = ''NNUE '' @ str_int (input_size config) @ ''->'' @ str_int (hidden_size config)
                 @ ''->1'' \<and>
           read_header (utf8_encode ''NNUE'' @ le_bytes 4 0x7AF32F16 @ le_bytes 4 177
                       @ le_bytes 4 (int (length (utf8_encode (description_of config))))
                       @ utf8_encode (description_of config) @ rest)
             = Some (\<lparr>magic = utf8_encode ''NNUE'', version = 0x7AF32F16, architecture = 177,
                      description = description_of config\<rparr>, rest)"
proof -
  let ?rest = "concat (drop 5 (export_chunks cast config m))"
  have blob: "concat (export_chunks cast config m)
                = utf8_encode ''NNUE'' @ le_bytes 4 0x7AF32F16 @ le_bytes 4 177
                    @ le_bytes 4 (int (length (utf8_encode (description_of config))))
                    @ utf8_encode (description_of config) @ ?rest"
    by (simp add: export_chunks_def magic_tag_def)
  have written: "files (snd (export_stockfish_nnue cast config m path w)) path
                = Some (concat (export_chunks cast config m))"
    by (simp add: export_run_unlimited [OF assms])
  have rd: "read_header (utf8_encode ''NNUE'' @ le_bytes 4 0x7AF32F16 @ le_bytes 4 177
                       @ le_bytes 4 (int (length (utf8_encode (description_of config))))
                       @ utf8_encode (description_of config) @ ?rest)
             = Some (\<lparr>magic = utf8_encode ''NNUE'', version = 0x7AF32F16, architecture = 177,
                      description = description_of config\<rparr>, ?rest)"
    using length_magic_tag assms(3)
    by (intro read_header_layout) (simp_all add: magic_tag_def)
  show ?thesis
    using written blob rd by (intro exI [of _ ?rest]) (simp add: description_of_def)
qed

theorem exported_header_round_trip_witness:
  "can_open healthy_io ''net.nnue'' \<and> write_budget healthy_io = None \<and>
   int (length (utf8_encode (description_of default_config))) < 2 ^ 32 \<and>
   (\<exists>rest. read_header (utf8_encode ''NNUE'' @ le_bytes 4 0x7AF32F16 @ le_bytes 4 177
                       @ le_bytes 4 (int (length (utf8_encode (description_of default_config))))
                       @ utf8_encode (description_of default_config) @ rest)
             = Some (\<lparr>magic = utf8_encode ''NNUE'', version = 0x7AF32F16, architecture = 177,
                      description = ''NNUE 768->256->1''\<rparr>, rest))"
  using exported_header_round_trip
          [where w = healthy_io and path = "''net.nnue''" and config = default_config
             and cast = low_bits and m = "constant_nnue default_config 0"]
    healthy_io_ok default_description_length
  by (auto simp: default_description)

text \<open>
  Claim C5. \<^verbatim>\<open>_write_feature_transformer\<close> writes the first layer's weights as 16-bit
  integers and then its bias as 32-bit integers; \<^verbatim>\<open>_write_output_layers\<close> writes, for
  the two linear layers of the output stage in forward order, the weights as 8-bit
  integers and then the bias as 32-bit integers. This holds for every conversion and
  every parameter value: nothing is checked against the range. For a network of the
  configured shapes with 768 inputs and 256 hidden units the weight section has
  \<open>768 * 256 * 2\<close> bytes and the bias section \<open>256 * 4\<close>.
\<close>

theorem quantized_sections:
  assumes "nnue_shaped config m" and "input_size config = 768" and "hidden_size config = 256"
    and "write_budget w = None" and "files w f = Some old"
  shows "write_feature_transformer cast m f =
           write_all f [tobytes (map (astype_int16 cast) (elements (ft0_weight m))),
                        tobytes (map (astype_int32 cast) (elements (ft0_bias m)))] \<and>
         write_output_layers cast m f =
           write_all f [tobytes (map (astype_int8 cast) (elements (out1_weight m))),
                        tobytes (map (astype_int32 cast) (elements (out1_bias m))),
                        tobytes (map (astype_int8 cast) (elements (out3_weight m))),
                        tobytes (map (astype_int32 cast) (elements (out3_bias m)))] \<and>
         fst (write_feature_transformer cast m f w) = Inr () \<and>
         fst (write_output_layers cast m f w) = Inr () \<and>
         length (tobytes (map (astype_int16 cast) (elements (ft0_weight m)))) = 768 * 256 * 2 \<and>
         length (tobytes (map (astype_int32 cast) (elements (ft0_bias m)))) = 256 * 4"
  using assms(1-3)
  by (simp add: write_feature_transformer_eq write_output_layers_eq length_tobytes
        nnue_shaped_def linear_shaped_def write_all_unlimited [OF assms(4,5)])

theorem quantized_sections_witness:
  "nnue_shaped default_config (constant_nnue default_config (0::int)) \<and>
   input_size default_config = 768 \<and> hidden_size default_config = 256 \<and>
   write_budget (healthy_io\<lparr>files := [''net.nnue'' \<mapsto> []]\<rparr>) = None \<and>
   files (healthy_io\<lparr>files := [''net.nnue'' \<mapsto> []]\<rparr>) ''net.nnue'' = Some [] \<and>
   fst (write_feature_transformer low_bits (constant_nnue default_config 0) ''net.nnue''
          (healthy_io\<lparr>files := [''net.nnue'' \<mapsto> []]\<rparr>)) = Inr () \<and>
   length (tobytes (map (astype_int16 low_bits)
             (elements (ft0_weight (constant_nnue default_config 0))))) = 393216 \<and>
   length (tobytes (map (astype_int32 low_bits)
             (elements (ft0_bias (constant_nnue default_config 0))))) = 1024"
proof -
  have sh: "nnue_shaped default_config (constant_nnue default_config (0::int))"
    by (rule constant_nnue_shaped) (simp_all add: default_config_def)
  have sz: "input_size default_config = 768" "hidden_size default_config = 256"
    by (simp_all add: default_config_def)
  have io: "write_budget (healthy_io\<lparr>files := [''net.nnue'' \<mapsto> []]\<rparr>) = None"
    "files (healthy_io\<lparr>files := [''net.nnue'' \<mapsto> []]\<rparr>) ''net.nnue'' = Some []"
    by (simp_all add: healthy_io_def)
  note r = quantized_sections [OF sh sz io, of low_bits]
  note written = r [THEN conjunct2, THEN conjunct2, THEN conjunct1]
  note weights = r [THEN conjunct2, THEN conjunct2, THEN conjunct2, THEN conjunct2,
                    THEN conjunct1]
  note bias = r [THEN conjunct2, THEN conjunct2, THEN conjunct2, THEN conjunct2,
                 THEN conjunct2]
  show ?thesis
    using written weights bias sh sz io by simp
qed

text \<open>
  Claim C6. After the header, the exported file holds the parameters of
  \<^verbatim>\<open>feature_transformer.0\<close> and of the two output layers and nothing else; replacing the
  parameters of \<^verbatim>\<open>feature_transformer.2\<close> changes nothing of the export.
\<close>

theorem export_skips_second_transformer_layer:
  assumes "can_open w path" and "write_budget w = None"
    and "int (length (utf8_encode (description_of config))) < 2 ^ 32"
  shows "files (snd (export_stockfish_nnue cast config m path w)) path
           = Some (magic_tag @ le_bytes 4 0x7AF32F16 @ le_bytes 4 177
                     @ le_bytes 4 (int (length (utf8_encode (description_of config))))
                     @ utf8_encode (description_of config)
                     @ tobytes (map (astype_int16 cast) (elements (ft0_weight m)))
                     @ tobytes (map (astype_int32 cast) (elements (ft0_bias m)))
                     @ tobytes (map (astype_int8 cast) (elements (out1_weight m)))
                     @ tobytes (map (astype_int32 cast) (elements (out1_bias m)))
                     @ tobytes (map (astype_int8 cast) (elements (out3_weight m)))
                     @ tobytes (map (astype_int32 cast) (elements (out3_bias m)))) \<and>
         export_stockfish_nnue cast config (m\<lparr>ft2_weight := t1, ft2_bias := t2\<rparr>) path w
           = export_stockfish_nnue cast config m path w"
proof (intro conjI)
  show "export_stockfish_nnue cast config (m\<lparr>ft2_weight := t1, ft2_bias := t2\<rparr>) path w
          = export_stockfish_nnue cast config m path w"
    by (simp only: export_stockfish_nnue_def export_body_ignores_ft2)
qed (simp add: export_run_unlimited [OF assms] export_chunks_def)

theorem export_skips_second_transformer_layer_witness:
  "can_open healthy_io ''net.nnue'' \<and> write_budget healthy_io = None \<and>
   int (length (utf8_encode (description_of default_config))) < 2 ^ 32 \<and>
   export_stockfish_nnue low_bits default_config
       ((constant_nnue default_config 0)\<lparr>ft2_weight := constant_tensor [32, 256] 7,
                                          ft2_bias := constant_tensor [32] 9\<rparr>)
       ''net.nnue'' healthy_io
     = export_stockfish_nnue low_bits default_config (constant_nnue default_config 0)
         ''net.nnue'' healthy_io"
  using export_skips_second_transformer_layer
          [where w = healthy_io and path = "''net.nnue''" and config = default_config
             and cast = low_bits and m = "constant_nnue default_config 0"
             and ?t1.0 = "constant_tensor [32, 256] 7" and ?t2.0 = "constant_tensor [32] 9"]
    healthy_io_ok default_description_length
  by simp

end
